theory Spec2Isabelle
  imports Main
begin

section \<open>The Camera component: data model\<close>

text \<open>
  The component keeps three refs (\<open>videoRef\<close>, \<open>canvasRef\<close>, \<open>streamRef\<close>) and three
  state variables (\<open>error\<close>, \<open>isCameraAvailable\<close>, \<open>permissionStatus\<close>). Everything it
  touches outside itself is made part of the state as well: the browser's
  \<open>localStorage\<close>, the tracks of every media stream handed out so far, and the list of
  platform calls issued. A media stream is a reference; it is modelled as an index into
  \<open>tracks\<close>, and \<open>nextStream\<close> is the next index \<open>getUserMedia\<close> hands out.
\<close>

datatype permission = Prompt | Granted | Denied

datatype track_state = Live | Ended

datatype js_error = JsError (err_name: string)

datatype device_kind = AudioInput | AudioOutput | VideoInput

datatype call =
    TrackStop nat
  | GetUserMedia
  | EnumerateDevices
  | PermissionsQuery
  | AddChangeListener
  | GetItem string
  | SetItem string string
  | ConsoleError string
  | ConsoleWarn string

text \<open>
  What the platform answers to \<open>navigator.mediaDevices.getUserMedia\<close>: a new stream with
  the given number of tracks, or a rejection. A synchronous throw of the call expression
  (no \<open>mediaDevices\<close> object) lands in the same \<open>catch\<close> and is a rejection here.
\<close>

datatype gum_outcome = Resolved nat | Rejected js_error

record video_el =
  srcObject :: "nat option"

record camera =
  streamRef :: "nat option"
  videoRef :: "video_el option"
  canvasRef :: bool
  error :: string
  isCameraAvailable :: bool
  permissionStatus :: permission
  items :: "string \<rightharpoonup> string"
  getItem_throws :: bool
  setItem_throws :: bool
  tracks :: "nat \<Rightarrow> track_state list"
  nextStream :: nat
  changeListener :: bool
  calls :: "call list"

text \<open>
  A statement either completes normally or throws; the state reached so far survives a
  throw, since nothing is rolled back.
\<close>

datatype 'a completion =
    Normal (val: 'a) (st: camera)
  | Throw (exn: js_error) (st: camera)

definition initial :: "(string \<rightharpoonup> string) \<Rightarrow> bool \<Rightarrow> bool \<Rightarrow> camera" where
  "initial saved gthrows sthrows =
     \<lparr>streamRef = None, videoRef = None, canvasRef = False, error = [],
      isCameraAvailable = False, permissionStatus = Prompt, items = saved,
      getItem_throws = gthrows, setItem_throws = sthrows, tracks = (\<lambda>i. []), nextStream = 0,
      changeListener = False, calls = []\<rparr>"

subsection \<open>The messages of the source\<close>

text \<open>The accented letters are written as their UTF-8 bytes.\<close>

definition a_acute :: string where
  "a_acute = [CHR 0xC3, CHR 0xA1]"

definition o_acute :: string where
  "o_acute = [CHR 0xC3, CHR 0xB3]"

definition u_acute :: string where
  "u_acute = [CHR 0xC3, CHR 0xBA]"

definition msg_denied :: string where
  "msg_denied = ''Acceso a la c'' @ a_acute @ ''mara denegado. Por favor, permite el acceso en la configuraci''
     @ o_acute @ ''n de tu dispositivo.''"

definition msg_generic :: string where
  "msg_generic = ''Error al acceder a la c'' @ a_acute @ ''mara. Por favor, recarga la p'' @ a_acute
     @ ''gina o verifica los permisos del sistema.''"

definition msg_no_camera :: string where
  "msg_no_camera = ''No se detect'' @ o_acute @ '' ninguna c'' @ a_acute
     @ ''mara. Por favor, verifica que tu dispositivo tenga una c'' @ a_acute @ ''mara disponible.''"

definition msg_check_failed :: string where
  "msg_check_failed = ''Error al verificar la c'' @ a_acute @ ''mara. Por favor, aseg'' @ u_acute
     @ ''rate de que tu navegador tenga acceso a la c'' @ a_acute @ ''mara.''"

definition warn_not_saved :: string where
  "warn_not_saved = ''No se pudo guardar el estado del permiso:''"

section \<open>Stream lifecycle and acquisition\<close>

definition console_error :: "string \<Rightarrow> camera \<Rightarrow> camera" where
  "console_error m s = s\<lparr>calls := calls s @ [ConsoleError m]\<rparr>"

definition console_warn :: "string \<Rightarrow> camera \<Rightarrow> camera" where
  "console_warn m s = s\<lparr>calls := calls s @ [ConsoleWarn m]\<rparr>"

text \<open>\<open>localStorage.setItem\<close> throws when the storage refuses the write.\<close>

definition localStorage_setItem :: "string \<Rightarrow> string \<Rightarrow> camera \<Rightarrow> unit completion" where
  "localStorage_setItem k v s =
     (let s1 = s\<lparr>calls := calls s @ [SetItem k v]\<rparr>
      in if setItem_throws s then Throw (JsError ''QuotaExceededError'') s1
         else Normal () (s1\<lparr>items := (items s1)(k \<mapsto> v)\<rparr>))"

definition localStorage_getItem :: "string \<Rightarrow> camera \<Rightarrow> (string option) completion" where
  "localStorage_getItem k s =
     (let s1 = s\<lparr>calls := calls s @ [GetItem k]\<rparr>
      in if getItem_throws s then Throw (JsError ''SecurityError'') s1
         else Normal (items s k) s1)"

text \<open>
  \<^verbatim>\<open>if (streamRef.current) { getTracks().forEach(track => track.stop()); streamRef.current = null; }\<close>
\<close>

definition stopCurrentStream :: "camera \<Rightarrow> camera" where
  "stopCurrentStream s =
     (case streamRef s of
        None \<Rightarrow> s
      | Some i \<Rightarrow>
          s\<lparr>tracks := (tracks s)(i := map (\<lambda>t. Ended) (tracks s i)),
            calls := calls s @ map (\<lambda>t. TrackStop i) (tracks s i),
            streamRef := None\<rparr>)"

text \<open>
  \<open>requestCameraPermission\<close> is an async function with one \<open>await\<close>. Its first part runs
  up to the point where \<open>getUserMedia\<close> has been called; the second part runs when the
  promise has settled. A caller that awaits the function runs both parts one after the
  other; a caller that does not await it runs the first part only, and the second part
  runs later.
\<close>

definition requestCameraPermission_call :: "camera \<Rightarrow> camera" where
  "requestCameraPermission_call s =
     (let s1 = stopCurrentStream s in s1\<lparr>calls := calls s1 @ [GetUserMedia]\<rparr>)"

definition getUserMedia_settled :: "gum_outcome \<Rightarrow> camera \<Rightarrow> nat completion" where
  "getUserMedia_settled out s =
     (case out of
        Rejected e \<Rightarrow> Throw e s
      | Resolved n \<Rightarrow>
          Normal (nextStream s)
            (s\<lparr>tracks := (tracks s)(nextStream s := replicate n Live),
               nextStream := Suc (nextStream s)\<rparr>))"

text \<open>The rest of the \<open>try\<close> block, from \<open>streamRef.current = stream\<close> on.\<close>

definition acquired :: "nat \<Rightarrow> camera \<Rightarrow> unit completion" where
  "acquired stream s =
     (let s1 = s\<lparr>streamRef := Some stream\<rparr>
      in case videoRef s1 of
           None \<Rightarrow> Normal () s1
         | Some v \<Rightarrow>
             (let s2 = s1\<lparr>videoRef := Some (v\<lparr>srcObject := Some stream\<rparr>),
                         permissionStatus := Granted, error := []\<rparr>
              in case localStorage_setItem ''cameraPermission'' ''granted'' s2 of
                   Normal u s3 \<Rightarrow> Normal () s3
                 | Throw e s3 \<Rightarrow> Normal () (console_warn warn_not_saved s3)))"

text \<open>The \<open>catch (err)\<close> block.\<close>

definition failed :: "js_error \<Rightarrow> camera \<Rightarrow> unit completion" where
  "failed err s =
     (let s1 = console_error ''Error accessing camera:'' s
      in if err_name err = ''NotAllowedError''
         then (let s2 = s1\<lparr>permissionStatus := Denied, error := msg_denied\<rparr>
               in case localStorage_setItem ''cameraPermission'' ''denied'' s2 of
                    Normal u s3 \<Rightarrow> Normal () s3
                  | Throw e s3 \<Rightarrow> Normal () (console_warn warn_not_saved s3))
         else Normal () (s1\<lparr>error := msg_generic\<rparr>))"

definition requestCameraPermission_resume :: "gum_outcome \<Rightarrow> camera \<Rightarrow> unit completion" where
  "requestCameraPermission_resume out s =
     (case (case getUserMedia_settled out s of
              Normal stream s1 \<Rightarrow> acquired stream s1
            | Throw e s1 \<Rightarrow> Throw e s1) of
        Normal u s2 \<Rightarrow> Normal () s2
      | Throw err s2 \<Rightarrow> failed err s2)"

definition requestCameraPermission :: "gum_outcome \<Rightarrow> camera \<Rightarrow> unit completion" where
  "requestCameraPermission out s =
     requestCameraPermission_resume out (requestCameraPermission_call s)"



text \<open>The streams handed out so far that still have a running track.\<close>

definition live_streams :: "camera \<Rightarrow> nat list" where
  "live_streams s = filter (\<lambda>i. Live \<in> set (tracks s i)) [0..<nextStream s]"


section \<open>Rendering\<close>

text \<open>
  The component returns one of four panels, tested in this order: no camera available,
  permission \<open>prompt\<close> (with the button that calls \<open>requestCameraPermission\<close>),
  permission \<open>denied\<close>, and otherwise the \<open>video\<close> and \<open>canvas\<close> elements. Only the
  last panel carries \<open>videoRef\<close> and \<open>canvasRef\<close>: committing a render attaches the two
  refs when that panel is shown and clears them otherwise. An element that stays mounted
  keeps its \<open>srcObject\<close>.
\<close>

datatype panel = NoCameraPanel | PromptPanel | DeniedPanel | VideoPanel

definition render :: "camera \<Rightarrow> panel" where
  "render s =
     (if \<not> isCameraAvailable s then NoCameraPanel
      else if permissionStatus s = Prompt then PromptPanel
      else if permissionStatus s = Denied then DeniedPanel
      else VideoPanel)"

definition commit :: "camera \<Rightarrow> camera" where
  "commit s =
     (if render s = VideoPanel
      then s\<lparr>videoRef := Some (case videoRef s of None \<Rightarrow> \<lparr>srcObject = None\<rparr> | Some v \<Rightarrow> v),
             canvasRef := True\<rparr>
      else s\<lparr>videoRef := None, canvasRef := False\<rparr>)"

section \<open>The mount effect\<close>

text \<open>
  The answers of the platform during one mount: the device list (or the error of the
  enumeration), whether \<open>navigator\<close> has \<open>permissions\<close>, the answer of the permission
  query, and the outcome of the one \<open>getUserMedia\<close> call the mount can make.
\<close>

record media_device =
  kind :: device_kind

record platform =
  enumerateDevices :: "js_error + media_device list"
  permissionsApi :: bool
  permissionsQuery :: "js_error + permission"
  userMedia :: gum_outcome

definition enumerateDevices_settled :: "platform \<Rightarrow> camera \<Rightarrow> (media_device list) completion" where
  "enumerateDevices_settled p s =
     (let s1 = s\<lparr>calls := calls s @ [EnumerateDevices]\<rparr>
      in case enumerateDevices p of Inl e \<Rightarrow> Throw e s1 | Inr devices \<Rightarrow> Normal devices s1)"

definition permissionsQuery_settled :: "platform \<Rightarrow> camera \<Rightarrow> permission completion" where
  "permissionsQuery_settled p s =
     (let s1 = s\<lparr>calls := calls s @ [PermissionsQuery]\<rparr>
      in case permissionsQuery p of Inl e \<Rightarrow> Throw e s1 | Inr state \<Rightarrow> Normal state s1)"

text \<open>
  The \<open>try\<close> block of \<open>checkCameraAvailability\<close>. The saved hint \<open>granted\<close> leads into an
  awaited \<open>requestCameraPermission\<close> and returns. Otherwise the devices are enumerated;
  with no video input the function sets the message and returns; with a permissions API it
  queries the state, stores it, registers the change listener and, when the state is
  \<open>granted\<close>, calls \<open>requestCameraPermission\<close> without awaiting it. The result value
  tells whether such a call is in flight when the function returns.
\<close>

definition checkCameraAvailability_try :: "platform \<Rightarrow> camera \<Rightarrow> bool completion" where
  "checkCameraAvailability_try p s =
     (case localStorage_getItem ''cameraPermission'' s of
        Throw e s1 \<Rightarrow> Throw e s1
      | Normal savedPermission s1 \<Rightarrow>
          if savedPermission = Some ''granted''
          then (case requestCameraPermission (userMedia p) s1 of
                  Throw e s2 \<Rightarrow> Throw e s2
                | Normal u s2 \<Rightarrow> Normal False s2)
          else (case enumerateDevices_settled p s1 of
                  Throw e s2 \<Rightarrow> Throw e s2
                | Normal devices s2 \<Rightarrow>
                    (let hasCamera = list_ex (\<lambda>device. kind device = VideoInput) devices;
                         s3 = s2\<lparr>isCameraAvailable := hasCamera\<rparr>
                     in if \<not> hasCamera then Normal False (s3\<lparr>error := msg_no_camera\<rparr>)
                        else if permissionsApi p
                        then (case permissionsQuery_settled p s3 of
                                Throw e s4 \<Rightarrow> Throw e s4
                              | Normal state s4 \<Rightarrow>
                                  (let s5 = s4\<lparr>permissionStatus := state, changeListener := True,
                                              calls := calls s4 @ [AddChangeListener]\<rparr>
                                   in if state = Granted
                                      then Normal True (requestCameraPermission_call s5)
                                      else Normal False s5))
                        else Normal False s3)))"

text \<open>
  The \<open>catch\<close> block logs and sets the message of a failed check.
\<close>

definition checkCameraAvailability :: "platform \<Rightarrow> camera \<Rightarrow> bool completion" where
  "checkCameraAvailability p s =
     (case checkCameraAvailability_try p s of
        Normal inflight s1 \<Rightarrow> Normal inflight s1
      | Throw err s1 \<Rightarrow>
          Normal False ((console_error ''Error checking camera:'' s1)\<lparr>error := msg_check_failed\<rparr>))"

text \<open>
  The listener for the permission's \<open>change\<close> event: it stores the new state and, on
  \<open>granted\<close>, calls \<open>requestCameraPermission\<close> without awaiting it.
\<close>

definition onPermissionChange :: "permission \<Rightarrow> camera \<Rightarrow> bool \<times> camera" where
  "onPermissionChange state s =
     (let s1 = s\<lparr>permissionStatus := state\<rparr>
      in if state = Granted then (True, requestCameraPermission_call s1) else (False, s1))"

text \<open>
  Mounting: the first render is committed, the effect runs \<open>checkCameraAvailability\<close>,
  the state changes are rendered, and a call left in flight settles after that render.
\<close>

definition mount :: "platform \<Rightarrow> camera \<Rightarrow> camera" where
  "mount p s =
     (case checkCameraAvailability p (commit s) of
        Throw e s1 \<Rightarrow> commit s1
      | Normal inflight s1 \<Rightarrow>
          if inflight
          then commit (st (requestCameraPermission_resume (userMedia p) (commit s1)))
          else commit s1)"

section \<open>The sampling effect\<close>

text \<open>
  The second effect samples the video. A video frame is what the video element reports at
  one animation frame: its \<open>readyState\<close>, its native size and its picture. The sampler is
  the state one run of the effect owns: the canvas, the variable \<open>animationFrame\<close>, the
  callbacks it has scheduled with \<open>requestAnimationFrame\<close> and not yet run, and the
  frames handed to \<open>onFrame\<close> so far.
\<close>

type_synonym rgba = "nat \<times> nat \<times> nat \<times> nat"

record video_frame =
  readyState :: nat
  videoWidth :: nat
  videoHeight :: nat
  picture :: "nat \<Rightarrow> nat \<Rightarrow> rgba"

record image_data =
  img_width :: nat
  img_height :: nat
  img_data :: "nat \<Rightarrow> nat \<Rightarrow> rgba"

record sampler =
  canvas_width :: nat
  canvas_height :: nat
  canvas_bitmap :: "nat \<Rightarrow> nat \<Rightarrow> rgba"
  animationFrame :: "nat option"
  scheduled :: "nat list"
  nextHandle :: nat
  delivered :: "image_data list"

definition HAVE_ENOUGH_DATA :: nat where
  "HAVE_ENOUGH_DATA = 4"

definition transparent :: rgba where
  "transparent = (0, 0, 0, 0)"

text \<open>
  Assigning a canvas dimension clears the bitmap. \<open>drawImage(video, 0, 0)\<close> paints the
  picture at its native size from the origin. \<open>getImageData(0, 0, sw, sh)\<close> throws
  \<open>IndexSizeError\<close> when \<open>sw\<close> or \<open>sh\<close> is zero; otherwise it reads the rectangle back,
  transparent where it lies outside the canvas.
\<close>

definition set_canvas_width :: "nat \<Rightarrow> sampler \<Rightarrow> sampler" where
  "set_canvas_width w sm = sm\<lparr>canvas_width := w, canvas_bitmap := (\<lambda>x y. transparent)\<rparr>"

definition set_canvas_height :: "nat \<Rightarrow> sampler \<Rightarrow> sampler" where
  "set_canvas_height h sm = sm\<lparr>canvas_height := h, canvas_bitmap := (\<lambda>x y. transparent)\<rparr>"

definition drawImage :: "video_frame \<Rightarrow> sampler \<Rightarrow> sampler" where
  "drawImage video sm =
     sm\<lparr>canvas_bitmap :=
          (\<lambda>x y. if x < videoWidth video \<and> y < videoHeight video
                 then picture video x y else canvas_bitmap sm x y)\<rparr>"

definition getImageData :: "nat \<Rightarrow> nat \<Rightarrow> sampler \<Rightarrow> js_error + image_data" where
  "getImageData sw sh sm =
     (if sw = 0 \<or> sh = 0 then Inl (JsError ''IndexSizeError'')
      else Inr \<lparr>img_width = sw, img_height = sh,
             img_data = (\<lambda>x y. if x < sw \<and> y < sh \<and> x < canvas_width sm \<and> y < canvas_height sm
                               then canvas_bitmap sm x y else transparent)\<rparr>)"

text \<open>
  \<open>requestAnimationFrame\<close> schedules the callback for the next animation frame and
  returns its handle; \<open>cancelAnimationFrame\<close> unschedules the callback of that handle, and
  does nothing for \<open>undefined\<close>.
\<close>

definition requestAnimationFrame :: "sampler \<Rightarrow> nat \<times> sampler" where
  "requestAnimationFrame sm =
     (nextHandle sm, sm\<lparr>scheduled := scheduled sm @ [nextHandle sm], nextHandle := Suc (nextHandle sm)\<rparr>)"

definition cancelAnimationFrame :: "nat option \<Rightarrow> sampler \<Rightarrow> sampler" where
  "cancelAnimationFrame handle sm =
     (case handle of
        None \<Rightarrow> sm
      | Some h \<Rightarrow> sm\<lparr>scheduled := removeAll h (scheduled sm)\<rparr>)"

text \<open>
  A run of \<open>processFrame\<close> returns or leaves by an exception; the sampler reached so far
  survives the exception.
  \<^verbatim>\<open>if (video.readyState === video.HAVE_ENOUGH_DATA) { ...; onFrame(imageData); }\<close>
  \<^verbatim>\<open>animationFrame = requestAnimationFrame(processFrame);\<close>
  An exception of \<open>getImageData\<close> leaves the function before \<open>onFrame\<close> and before the
  next callback is scheduled.
\<close>

datatype frame_completion =
    Returned (smp: sampler)
  | Raised (raised: js_error) (smp: sampler)

definition processFrame :: "video_frame \<Rightarrow> sampler \<Rightarrow> frame_completion" where
  "processFrame video sm =
     (case (if readyState video = HAVE_ENOUGH_DATA
            then (let c = drawImage video
                            (set_canvas_height (videoHeight video)
                              (set_canvas_width (videoWidth video) sm))
                  in case getImageData (canvas_width c) (canvas_height c) c of
                       Inl e \<Rightarrow> Raised e c
                     | Inr imageData \<Rightarrow> Returned (c\<lparr>delivered := delivered c @ [imageData]\<rparr>))
            else Returned sm) of
        Raised e sm1 \<Rightarrow> Raised e sm1
      | Returned sm1 \<Rightarrow>
          (let (h, sm2) = requestAnimationFrame sm1
           in Returned (sm2\<lparr>animationFrame := Some h\<rparr>)))"

text \<open>
  The \<open>play\<close> listener of the video element, and the cleanup the effect returns. The
  cleanup cancels the handle in \<open>animationFrame\<close>; the listener stays registered.
\<close>

definition onPlay :: "sampler \<Rightarrow> sampler" where
  "onPlay sm = (let (h, sm1) = requestAnimationFrame sm in sm1\<lparr>animationFrame := Some h\<rparr>)"

definition cleanup :: "sampler \<Rightarrow> sampler" where
  "cleanup sm = cancelAnimationFrame (animationFrame sm) sm"

text \<open>
  The effect body up to the registration of the listener: it returns early unless both
  refs are attached, the camera is available and the permission is \<open>granted\<close>, and
  again when the canvas gives no 2D context.
\<close>

definition samplingEffect :: "bool \<Rightarrow> camera \<Rightarrow> sampler option" where
  "samplingEffect context2d s =
     (if videoRef s = None \<or> \<not> canvasRef s \<or> \<not> isCameraAvailable s \<or> permissionStatus s \<noteq> Granted
      then None
      else if \<not> context2d then None
      else Some \<lparr>canvas_width = 300, canvas_height = 150, canvas_bitmap = (\<lambda>x y. transparent),
                 animationFrame = None, scheduled = [], nextHandle = 1, delivered = []\<rparr>)"

text \<open>
  What happens to a sampler afterwards: the video emits \<open>play\<close>, an animation frame
  arrives, or the cleanup runs. At an animation frame the callbacks scheduled for it run,
  each seeing the same video frame; an exception of one callback is reported by the
  browser and the others still run.
\<close>

datatype event = Play | Tick video_frame | Cleanup

definition tick :: "video_frame \<Rightarrow> sampler \<Rightarrow> sampler" where
  "tick video sm =
     ((\<lambda>sm1. smp (processFrame video sm1)) ^^ length (scheduled sm)) (sm\<lparr>scheduled := []\<rparr>)"

fun step :: "event \<Rightarrow> sampler \<Rightarrow> sampler" where
  "step Play sm = onPlay sm"
| "step (Tick video) sm = tick video sm"
| "step Cleanup sm = cleanup sm"

fun run :: "event list \<Rightarrow> sampler \<Rightarrow> sampler" where
  "run [] sm = sm"
| "run (e # es) sm = run es (step e sm)"

text \<open>
  The state of a single sampling loop: nothing is scheduled, or the one scheduled callback
  is the one \<open>animationFrame\<close> names.
\<close>

definition armed :: "sampler \<Rightarrow> bool" where
  "armed sm = (case scheduled sm of [] \<Rightarrow> True | [h] \<Rightarrow> animationFrame sm = Some h | _ \<Rightarrow> False)"

section \<open>Acquisition: helper facts\<close>

lemma acquired_no_Throw: "acquired stream s \<noteq> Throw e s'"
  by (simp add: acquired_def Let_def localStorage_setItem_def split: option.splits)

lemma failed_no_Throw: "failed err s \<noteq> Throw e s'"
  by (simp add: failed_def Let_def localStorage_setItem_def)

lemma resume_no_Throw: "requestCameraPermission_resume out s \<noteq> Throw e s'"
  by (cases out)
    (simp_all add: requestCameraPermission_resume_def getUserMedia_settled_def
      acquired_no_Throw failed_no_Throw split: completion.splits)

lemma resume_Normal:
  "requestCameraPermission_resume out s = Normal () (st (requestCameraPermission_resume out s))"
  by (cases "requestCameraPermission_resume out s") (simp_all add: resume_no_Throw)

lemma stop_fields:
  "videoRef (stopCurrentStream s) = videoRef s"
  "canvasRef (stopCurrentStream s) = canvasRef s"
  "error (stopCurrentStream s) = error s"
  "isCameraAvailable (stopCurrentStream s) = isCameraAvailable s"
  "permissionStatus (stopCurrentStream s) = permissionStatus s"
  "items (stopCurrentStream s) = items s"
  "getItem_throws (stopCurrentStream s) = getItem_throws s"
  "setItem_throws (stopCurrentStream s) = setItem_throws s"
  "nextStream (stopCurrentStream s) = nextStream s"
  "changeListener (stopCurrentStream s) = changeListener s"
  "streamRef (stopCurrentStream s) = None"
  by (simp_all add: stopCurrentStream_def split: option.splits)

lemma call_fields:
  "videoRef (requestCameraPermission_call s) = videoRef s"
  "canvasRef (requestCameraPermission_call s) = canvasRef s"
  "error (requestCameraPermission_call s) = error s"
  "isCameraAvailable (requestCameraPermission_call s) = isCameraAvailable s"
  "permissionStatus (requestCameraPermission_call s) = permissionStatus s"
  "items (requestCameraPermission_call s) = items s"
  "getItem_throws (requestCameraPermission_call s) = getItem_throws s"
  "setItem_throws (requestCameraPermission_call s) = setItem_throws s"
  "nextStream (requestCameraPermission_call s) = nextStream s"
  "changeListener (requestCameraPermission_call s) = changeListener s"
  "streamRef (requestCameraPermission_call s) = None"
  "calls (requestCameraPermission_call s) = calls (stopCurrentStream s) @ [GetUserMedia]"
  "tracks (requestCameraPermission_call s) = tracks (stopCurrentStream s)"
  by (simp_all add: requestCameraPermission_call_def Let_def stop_fields)

lemma stop_calls_no_SetItem:
  "SetItem k v \<in> set (calls (stopCurrentStream s)) \<longleftrightarrow> SetItem k v \<in> set (calls s)"
  by (auto simp add: stopCurrentStream_def split: option.splits)

lemma request_Normal:
  "requestCameraPermission out s = Normal () (st (requestCameraPermission out s))"
  unfolding requestCameraPermission_def by (rule resume_Normal)

lemma resume_Resolved_no_video:
  "videoRef s = None \<Longrightarrow>
   st (requestCameraPermission_resume (Resolved n) s) =
     s\<lparr>tracks := (tracks s)(nextStream s := replicate n Live),
       nextStream := Suc (nextStream s), streamRef := Some (nextStream s)\<rparr>"
  by (simp add: requestCameraPermission_resume_def getUserMedia_settled_def acquired_def)

lemma resume_Resolved_video:
  "videoRef s = Some v \<Longrightarrow>
   st (requestCameraPermission_resume (Resolved n) s) =
     (let s2 = s\<lparr>tracks := (tracks s)(nextStream s := replicate n Live),
                 nextStream := Suc (nextStream s), streamRef := Some (nextStream s),
                 videoRef := Some (v\<lparr>srcObject := Some (nextStream s)\<rparr>),
                 permissionStatus := Granted, error := []\<rparr>
      in if setItem_throws s
         then s2\<lparr>calls := calls s @ [SetItem ''cameraPermission'' ''granted'', ConsoleWarn warn_not_saved]\<rparr>
         else s2\<lparr>calls := calls s @ [SetItem ''cameraPermission'' ''granted''],
                 items := (items s)(''cameraPermission'' \<mapsto> ''granted'')\<rparr>)"
  by (simp add: requestCameraPermission_resume_def getUserMedia_settled_def acquired_def
      localStorage_setItem_def console_warn_def Let_def)

lemma resume_Rejected_denied:
  "err_name e = ''NotAllowedError'' \<Longrightarrow>
   st (requestCameraPermission_resume (Rejected e) s) =
     (let s2 = s\<lparr>permissionStatus := Denied, error := msg_denied\<rparr>
      in if setItem_throws s
         then s2\<lparr>calls := calls s @ [ConsoleError ''Error accessing camera:'',
                   SetItem ''cameraPermission'' ''denied'', ConsoleWarn warn_not_saved]\<rparr>
         else s2\<lparr>calls := calls s @ [ConsoleError ''Error accessing camera:'',
                   SetItem ''cameraPermission'' ''denied''],
                 items := (items s)(''cameraPermission'' \<mapsto> ''denied'')\<rparr>)"
  by (simp add: requestCameraPermission_resume_def getUserMedia_settled_def failed_def
      localStorage_setItem_def console_warn_def console_error_def Let_def)

lemma resume_Rejected_other:
  "err_name e \<noteq> ''NotAllowedError'' \<Longrightarrow>
   st (requestCameraPermission_resume (Rejected e) s) =
     s\<lparr>calls := calls s @ [ConsoleError ''Error accessing camera:''], error := msg_generic\<rparr>"
  by (simp add: requestCameraPermission_resume_def getUserMedia_settled_def failed_def
      console_error_def Let_def)

section \<open>What a call to requestCameraPermission does\<close>

text \<open>
  Claim C10. When \<open>getUserMedia\<close> resolves, the call completes normally and the new
  stream is stored in \<open>streamRef\<close> whether or not a video element is attached. With no
  video element attached, \<open>videoRef\<close>, the permission state, the error message and the
  stored preference are all as before, and no storage call is made. With a video element
  attached, the stream becomes its \<open>srcObject\<close>, the permission state is \<open>granted\<close>, the
  error message is empty, and \<open>cameraPermission = granted\<close> is written (and is in the
  storage when the storage accepts writes).
\<close>

theorem success_effects_need_video:
  "requestCameraPermission (Resolved n) s = Normal () (st (requestCameraPermission (Resolved n) s))
   \<and> streamRef (st (requestCameraPermission (Resolved n) s)) = Some (nextStream s)
   \<and> tracks (st (requestCameraPermission (Resolved n) s)) (nextStream s) = replicate n Live
   \<and> (videoRef s = None \<longrightarrow>
        videoRef (st (requestCameraPermission (Resolved n) s)) = None
      \<and> permissionStatus (st (requestCameraPermission (Resolved n) s)) = permissionStatus s
      \<and> error (st (requestCameraPermission (Resolved n) s)) = error s
      \<and> items (st (requestCameraPermission (Resolved n) s)) = items s
      \<and> calls (st (requestCameraPermission (Resolved n) s)) = calls (stopCurrentStream s) @ [GetUserMedia])
   \<and> (\<forall>v. videoRef s = Some v \<longrightarrow>
        videoRef (st (requestCameraPermission (Resolved n) s)) = Some (v\<lparr>srcObject := Some (nextStream s)\<rparr>)
      \<and> permissionStatus (st (requestCameraPermission (Resolved n) s)) = Granted
      \<and> error (st (requestCameraPermission (Resolved n) s)) = []
      \<and> SetItem ''cameraPermission'' ''granted'' \<in> set (calls (st (requestCameraPermission (Resolved n) s)))
      \<and> (\<not> setItem_throws s \<longrightarrow>
            items (st (requestCameraPermission (Resolved n) s)) ''cameraPermission'' = Some ''granted''))"
proof (cases "videoRef s")
  case None
  then show ?thesis
    using request_Normal [of "Resolved n" s]
    by (simp add: requestCameraPermission_def resume_Resolved_no_video call_fields)
next
  case (Some v)
  then show ?thesis
    using request_Normal [of "Resolved n" s]
    by (simp add: requestCameraPermission_def resume_Resolved_video call_fields Let_def)
qed

theorem success_effects_need_video_witness:
  "videoRef (initial Map.empty False False) = None
   \<and> streamRef (st (requestCameraPermission (Resolved 1) (initial Map.empty False False))) = Some 0
   \<and> permissionStatus (st (requestCameraPermission (Resolved 1) (initial Map.empty False False))) = Prompt
   \<and> error (st (requestCameraPermission (Resolved 1) (initial Map.empty False False))) = []
   \<and> items (st (requestCameraPermission (Resolved 1) (initial Map.empty False False))) ''cameraPermission'' = None
   \<and> videoRef ((initial Map.empty False False)\<lparr>videoRef := Some \<lparr>srcObject = None\<rparr>\<rparr>) = Some \<lparr>srcObject = None\<rparr>
   \<and> \<not> setItem_throws ((initial Map.empty False False)\<lparr>videoRef := Some \<lparr>srcObject = None\<rparr>\<rparr>)
   \<and> permissionStatus (st (requestCameraPermission (Resolved 1)
         ((initial Map.empty False False)\<lparr>videoRef := Some \<lparr>srcObject = None\<rparr>\<rparr>))) = Granted
   \<and> items (st (requestCameraPermission (Resolved 1)
         ((initial Map.empty False False)\<lparr>videoRef := Some \<lparr>srcObject = None\<rparr>\<rparr>))) ''cameraPermission'' = Some ''granted''"
  using success_effects_need_video [of 1 "initial Map.empty False False"]
    success_effects_need_video [of 1 "(initial Map.empty False False)\<lparr>videoRef := Some \<lparr>srcObject = None\<rparr>\<rparr>"]
  by (simp add: initial_def)

text \<open>
  Claim C8. When the acquisition fails with any name other than \<open>NotAllowedError\<close>, the
  call completes normally in the state reached by the first part of the call, with the
  failure logged and the error message set to the generic one: the permission state and
  the stored preference are unchanged, and no \<open>setItem\<close> call is added to the log.
\<close>

theorem other_failure_keeps_permission:
  assumes "err_name e \<noteq> ''NotAllowedError''"
  shows "requestCameraPermission (Rejected e) s =
           Normal () ((requestCameraPermission_call s)
             \<lparr>calls := calls (stopCurrentStream s) @ [GetUserMedia, ConsoleError ''Error accessing camera:''],
               error := msg_generic\<rparr>)
         \<and> permissionStatus (st (requestCameraPermission (Rejected e) s)) = permissionStatus s
         \<and> error (st (requestCameraPermission (Rejected e) s)) = msg_generic
         \<and> items (st (requestCameraPermission (Rejected e) s)) = items s
         \<and> (\<forall>k v. SetItem k v \<in> set (calls (st (requestCameraPermission (Rejected e) s)))
               \<longrightarrow> SetItem k v \<in> set (calls s))"
proof -
  have "st (requestCameraPermission (Rejected e) s) =
          (requestCameraPermission_call s)
             \<lparr>calls := calls (stopCurrentStream s) @ [GetUserMedia, ConsoleError ''Error accessing camera:''],
               error := msg_generic\<rparr>"
    using assms by (simp add: requestCameraPermission_def resume_Rejected_other call_fields)
  then show ?thesis
    using request_Normal [of "Rejected e" s]
    by (simp add: call_fields stop_calls_no_SetItem)
qed

theorem other_failure_keeps_permission_witness:
  "err_name (JsError ''NotReadableError'') \<noteq> ''NotAllowedError''
   \<and> permissionStatus (st (requestCameraPermission (Rejected (JsError ''NotReadableError''))
        ((initial Map.empty False False)\<lparr>permissionStatus := Granted\<rparr>))) = Granted
   \<and> error (st (requestCameraPermission (Rejected (JsError ''NotReadableError''))
        ((initial Map.empty False False)\<lparr>permissionStatus := Granted\<rparr>))) = msg_generic
   \<and> items (st (requestCameraPermission (Rejected (JsError ''NotReadableError''))
        ((initial Map.empty False False)\<lparr>permissionStatus := Granted\<rparr>))) ''cameraPermission'' = None"
proof -
  have h: "err_name (JsError ''NotReadableError'') \<noteq> ''NotAllowedError''" by simp
  show ?thesis
    using h other_failure_keeps_permission [OF h, of "(initial Map.empty False False)\<lparr>permissionStatus := Granted\<rparr>"]
    by (simp add: initial_def call_fields)
qed

text \<open>
  Claim C3. Whatever the outcome of \<open>getUserMedia\<close>, \<open>requestCameraPermission\<close> completes
  normally and never throws. After a rejection named \<open>NotAllowedError\<close> the permission
  state is \<open>denied\<close>, the error message is the denial message and
  \<open>cameraPermission = denied\<close> is written (and is in the storage when the storage accepts
  writes); after any other rejection the error message is the generic one.
\<close>

theorem never_throws_past_boundary:
  "requestCameraPermission out s = Normal () (st (requestCameraPermission out s))
   \<and> (\<forall>e s'. requestCameraPermission out s \<noteq> Throw e s')
   \<and> (\<forall>e. out = Rejected e \<and> err_name e = ''NotAllowedError'' \<longrightarrow>
         permissionStatus (st (requestCameraPermission out s)) = Denied
         \<and> error (st (requestCameraPermission out s)) = msg_denied
         \<and> SetItem ''cameraPermission'' ''denied'' \<in> set (calls (st (requestCameraPermission out s)))
         \<and> (\<not> setItem_throws s \<longrightarrow>
               items (st (requestCameraPermission out s)) ''cameraPermission'' = Some ''denied''))
   \<and> (\<forall>e. out = Rejected e \<and> err_name e \<noteq> ''NotAllowedError'' \<longrightarrow>
         error (st (requestCameraPermission out s)) = msg_generic)"
proof -
  have a: "requestCameraPermission out s = Normal () (st (requestCameraPermission out s))"
    by (rule request_Normal)
  have b: "requestCameraPermission out s \<noteq> Throw e s'" for e s'
    by (simp add: requestCameraPermission_def resume_no_Throw)
  have c: "err_name e = ''NotAllowedError'' \<Longrightarrow>
         permissionStatus (st (requestCameraPermission (Rejected e) s)) = Denied
         \<and> error (st (requestCameraPermission (Rejected e) s)) = msg_denied
         \<and> SetItem ''cameraPermission'' ''denied'' \<in> set (calls (st (requestCameraPermission (Rejected e) s)))
         \<and> (\<not> setItem_throws s \<longrightarrow>
               items (st (requestCameraPermission (Rejected e) s)) ''cameraPermission'' = Some ''denied'')" for e
    by (simp add: requestCameraPermission_def resume_Rejected_denied call_fields Let_def)
  have d: "err_name e \<noteq> ''NotAllowedError'' \<Longrightarrow>
         error (st (requestCameraPermission (Rejected e) s)) = msg_generic" for e
    by (simp add: requestCameraPermission_def resume_Rejected_other)
  show ?thesis using a b c d by blast
qed

theorem never_throws_past_boundary_witness:
  "permissionStatus (st (requestCameraPermission (Rejected (JsError ''NotAllowedError''))
        (initial Map.empty False False))) = Denied
   \<and> items (st (requestCameraPermission (Rejected (JsError ''NotAllowedError''))
        (initial Map.empty False False))) ''cameraPermission'' = Some ''denied''
   \<and> error (st (requestCameraPermission (Rejected (JsError ''OverconstrainedError''))
        (initial Map.empty False False))) = msg_generic"
  using never_throws_past_boundary [of "Rejected (JsError ''NotAllowedError'')" "initial Map.empty False False"]
    never_throws_past_boundary [of "Rejected (JsError ''OverconstrainedError'')" "initial Map.empty False False"]
  by (simp add: initial_def)

text \<open>
  Claim C9. Let the storage refuse writes. The call still completes normally, and compared
  with the same call on a storage that accepts writes, the error message, the permission
  state, the stored stream, the video element, the tracks and the availability flag are
  the same. The stored preference keeps its old value, and the log differs at most by one
  warning at its end; the warning is there whenever the other run ends in a \<open>setItem\<close>.
\<close>

theorem failed_write_not_surfaced:
  assumes "setItem_throws s"
  shows "requestCameraPermission out s = Normal () (st (requestCameraPermission out s))
    \<and> error (st (requestCameraPermission out s)) = error (st (requestCameraPermission out (s\<lparr>setItem_throws := False\<rparr>)))
    \<and> permissionStatus (st (requestCameraPermission out s)) = permissionStatus (st (requestCameraPermission out (s\<lparr>setItem_throws := False\<rparr>)))
    \<and> streamRef (st (requestCameraPermission out s)) = streamRef (st (requestCameraPermission out (s\<lparr>setItem_throws := False\<rparr>)))
    \<and> videoRef (st (requestCameraPermission out s)) = videoRef (st (requestCameraPermission out (s\<lparr>setItem_throws := False\<rparr>)))
    \<and> tracks (st (requestCameraPermission out s)) = tracks (st (requestCameraPermission out (s\<lparr>setItem_throws := False\<rparr>)))
    \<and> isCameraAvailable (st (requestCameraPermission out s)) = isCameraAvailable (st (requestCameraPermission out (s\<lparr>setItem_throws := False\<rparr>)))
    \<and> items (st (requestCameraPermission out s)) = items s
    \<and> (calls (st (requestCameraPermission out s)) = calls (st (requestCameraPermission out (s\<lparr>setItem_throws := False\<rparr>)))
        \<or> calls (st (requestCameraPermission out s)) = calls (st (requestCameraPermission out (s\<lparr>setItem_throws := False\<rparr>))) @ [ConsoleWarn warn_not_saved])
    \<and> (\<forall>v. SetItem ''cameraPermission'' v = last (calls (st (requestCameraPermission out (s\<lparr>setItem_throws := False\<rparr>))))
          \<longrightarrow> calls (st (requestCameraPermission out s)) = calls (st (requestCameraPermission out (s\<lparr>setItem_throws := False\<rparr>))) @ [ConsoleWarn warn_not_saved])"
proof -
  let ?s0 = "s\<lparr>setItem_throws := False\<rparr>"
  have stop0: "stopCurrentStream ?s0 = (stopCurrentStream s)\<lparr>setItem_throws := False\<rparr>"
    by (simp add: stopCurrentStream_def split: option.splits)
  have call0: "requestCameraPermission_call ?s0 = (requestCameraPermission_call s)\<lparr>setItem_throws := False\<rparr>"
    by (simp add: requestCameraPermission_call_def stop0 Let_def)
  have thr: "setItem_throws (requestCameraPermission_call s)"
    using assms by (simp add: call_fields)
  show ?thesis
  proof (cases out)
    case (Resolved n)
    show ?thesis
    proof (cases "videoRef s")
      case None
      then show ?thesis
        using Resolved request_Normal [of out s]
        by (simp add: requestCameraPermission_def call0 resume_Resolved_no_video call_fields)
    next
      case (Some v)
      then show ?thesis
        using Resolved request_Normal [of out s] thr
        by (simp add: requestCameraPermission_def call0 resume_Resolved_video call_fields Let_def)
    qed
  next
    case (Rejected e)
    show ?thesis
    proof (cases "err_name e = ''NotAllowedError''")
      case True
      then show ?thesis
        using Rejected request_Normal [of out s] thr
        by (simp add: requestCameraPermission_def call0 resume_Rejected_denied call_fields Let_def)
    next
      case False
      then show ?thesis
        using Rejected request_Normal [of out s]
        by (simp add: requestCameraPermission_def call0 resume_Rejected_other call_fields)
    qed
  qed
qed

theorem failed_write_not_surfaced_witness:
  "setItem_throws (initial Map.empty False True)
   \<and> permissionStatus (st (requestCameraPermission (Rejected (JsError ''NotAllowedError''))
        (initial Map.empty False True))) = Denied
   \<and> error (st (requestCameraPermission (Rejected (JsError ''NotAllowedError''))
        (initial Map.empty False True))) = msg_denied
   \<and> items (st (requestCameraPermission (Rejected (JsError ''NotAllowedError''))
        (initial Map.empty False True))) ''cameraPermission'' = None
   \<and> last (calls (st (requestCameraPermission (Rejected (JsError ''NotAllowedError''))
        (initial Map.empty False True)))) = ConsoleWarn warn_not_saved"
proof -
  have h: "setItem_throws (initial Map.empty False True)" by (simp add: initial_def)
  have e: "(initial Map.empty False True)\<lparr>setItem_throws := False\<rparr> = initial Map.empty False False"
    by (simp add: initial_def)
  have c: "calls (st (requestCameraPermission (Rejected (JsError ''NotAllowedError'')) (initial Map.empty False False)))
      = [GetUserMedia, ConsoleError ''Error accessing camera:'', SetItem ''cameraPermission'' ''denied'']"
    and p: "permissionStatus (st (requestCameraPermission (Rejected (JsError ''NotAllowedError'')) (initial Map.empty False False))) = Denied"
    and m: "error (st (requestCameraPermission (Rejected (JsError ''NotAllowedError'')) (initial Map.empty False False))) = msg_denied"
    by (simp_all add: requestCameraPermission_def resume_Rejected_denied call_fields stop_fields
        stopCurrentStream_def initial_def)
  show ?thesis
    using h failed_write_not_surfaced [OF h, of "Rejected (JsError ''NotAllowedError'')"]
    by (simp add: e c p m) (simp add: initial_def)
qed

section \<open>Live streams\<close>



lemma tracks_resume_Resolved:
  "tracks (st (requestCameraPermission_resume (Resolved n) t)) = (tracks t)(nextStream t := replicate n Live)"
  "nextStream (st (requestCameraPermission_resume (Resolved n) t)) = Suc (nextStream t)"
  "streamRef (st (requestCameraPermission_resume (Resolved n) t)) = Some (nextStream t)"
  by (cases "videoRef t"; simp add: resume_Resolved_no_video resume_Resolved_video Let_def)+













lemma mount_prompt:
  "mount \<lparr>enumerateDevices = Inr [\<lparr>kind = VideoInput\<rparr>], permissionsApi = True,
       permissionsQuery = Inr Prompt, userMedia = Resolved 1\<rparr> (initial Map.empty False False)
   = (initial Map.empty False False)
       \<lparr>isCameraAvailable := True, changeListener := True,
        calls := [GetItem ''cameraPermission'', EnumerateDevices, PermissionsQuery, AddChangeListener]\<rparr>"
  by (simp add: mount_def commit_def render_def initial_def checkCameraAvailability_def
      checkCameraAvailability_try_def localStorage_getItem_def enumerateDevices_settled_def
      permissionsQuery_settled_def Let_def)

text \<open>
  Two calls that overlap are not covered by the stop at the start of each call. The button
  starts a call; before its \<open>getUserMedia\<close> settles, the permission's \<open>change\<close> listener
  starts a second call, which finds \<open>streamRef\<close> empty and stops nothing. Both promises
  then resolve with streams that have tracks. At the end \<open>streamRef\<close> holds the second
  stream, and the live streams are those left by \<open>stopCurrentStream\<close> followed by both
  new streams: the first one is live and no reference to it is left to stop it. The
  second lemma runs this from the state a mount leaves when the permission query answers
  \<open>prompt\<close>: the prompt panel with its button is shown and the listener is registered.
\<close>

lemma overlapping_requests_leave_two_live_streams:
  assumes "0 < n1" and "0 < n2"
  shows "streamRef (st (requestCameraPermission_resume (Resolved n2)
           (st (requestCameraPermission_resume (Resolved n1)
             (snd (onPermissionChange Granted (requestCameraPermission_call s))))))) = Some (Suc (nextStream s))
       \<and> live_streams (st (requestCameraPermission_resume (Resolved n2)
           (st (requestCameraPermission_resume (Resolved n1)
             (snd (onPermissionChange Granted (requestCameraPermission_call s)))))))
         = live_streams (stopCurrentStream s) @ [nextStream s, Suc (nextStream s)]"
proof -
  let ?s2 = "snd (onPermissionChange Granted (requestCameraPermission_call s))"
  let ?s3 = "st (requestCameraPermission_resume (Resolved n1) ?s2)"
  let ?s4 = "st (requestCameraPermission_resume (Resolved n2) ?s3)"
  have x: "stopCurrentStream ((requestCameraPermission_call s)\<lparr>permissionStatus := Granted\<rparr>)
      = (requestCameraPermission_call s)\<lparr>permissionStatus := Granted\<rparr>"
    by (simp add: stopCurrentStream_def call_fields)
  have s2: "tracks ?s2 = tracks (stopCurrentStream s)" "nextStream ?s2 = nextStream s"
    by (simp_all add: onPermissionChange_def Let_def call_fields x)
  have t4: "tracks ?s4 = (tracks (stopCurrentStream s))
              (nextStream s := replicate n1 Live, Suc (nextStream s) := replicate n2 Live)"
    and n4: "nextStream ?s4 = Suc (Suc (nextStream s))"
    and r4: "streamRef ?s4 = Some (Suc (nextStream s))"
    by (simp_all add: tracks_resume_Resolved s2)
  have "filter (\<lambda>i. Live \<in> set (((tracks (stopCurrentStream s))
              (nextStream s := replicate n1 Live, Suc (nextStream s) := replicate n2 Live)) i))
          [0..<nextStream s]
        = filter (\<lambda>i. Live \<in> set (tracks (stopCurrentStream s) i)) [0..<nextStream s]"
    by (rule filter_cong) auto
  then have "live_streams ?s4 = live_streams (stopCurrentStream s) @ [nextStream s, Suc (nextStream s)]"
    using assms by (simp add: live_streams_def t4 n4 stop_fields)
  with r4 show ?thesis by simp
qed

lemma overlapping_requests_from_prompt_panel:
  "render (mount \<lparr>enumerateDevices = Inr [\<lparr>kind = VideoInput\<rparr>], permissionsApi = True,
       permissionsQuery = Inr Prompt, userMedia = Resolved 1\<rparr> (initial Map.empty False False)) = PromptPanel
   \<and> changeListener (mount \<lparr>enumerateDevices = Inr [\<lparr>kind = VideoInput\<rparr>], permissionsApi = True,
       permissionsQuery = Inr Prompt, userMedia = Resolved 1\<rparr> (initial Map.empty False False))
   \<and> live_streams (st (requestCameraPermission_resume (Resolved 1)
           (st (requestCameraPermission_resume (Resolved 1)
             (snd (onPermissionChange Granted
                (requestCameraPermission_call
                  (mount \<lparr>enumerateDevices = Inr [\<lparr>kind = VideoInput\<rparr>], permissionsApi = True,
                     permissionsQuery = Inr Prompt, userMedia = Resolved 1\<rparr>
                    (initial Map.empty False False))))))))) = [0, 1]
   \<and> streamRef (st (requestCameraPermission_resume (Resolved 1)
           (st (requestCameraPermission_resume (Resolved 1)
             (snd (onPermissionChange Granted
                (requestCameraPermission_call
                  (mount \<lparr>enumerateDevices = Inr [\<lparr>kind = VideoInput\<rparr>], permissionsApi = True,
                     permissionsQuery = Inr Prompt, userMedia = Resolved 1\<rparr>
                    (initial Map.empty False False))))))))) = Some 1"
proof -
  let ?s = "mount \<lparr>enumerateDevices = Inr [\<lparr>kind = VideoInput\<rparr>], permissionsApi = True,
       permissionsQuery = Inr Prompt, userMedia = Resolved 1\<rparr> (initial Map.empty False False)"
  have r: "render ?s = PromptPanel" and c: "changeListener ?s" and n: "nextStream ?s = 0"
    and l: "live_streams (stopCurrentStream ?s) = []"
    unfolding mount_prompt
    by (simp_all add: render_def initial_def live_streams_def stop_fields)
  show ?thesis
    using overlapping_requests_leave_two_live_streams [of 1 1 ?s] r c l n
    by simp
qed

section \<open>The mount effect: properties\<close>

lemma stop_calls_no_PermissionsQuery:
  "PermissionsQuery \<in> set (calls (stopCurrentStream s)) \<longleftrightarrow> PermissionsQuery \<in> set (calls s)"
  by (auto simp add: stopCurrentStream_def split: option.splits)

lemma commit_fields:
  "streamRef (commit s) = streamRef s"
  "error (commit s) = error s"
  "isCameraAvailable (commit s) = isCameraAvailable s"
  "permissionStatus (commit s) = permissionStatus s"
  "items (commit s) = items s"
  "getItem_throws (commit s) = getItem_throws s"
  "setItem_throws (commit s) = setItem_throws s"
  "tracks (commit s) = tracks s"
  "nextStream (commit s) = nextStream s"
  "changeListener (commit s) = changeListener s"
  "calls (commit s) = calls s"
  "render (commit s) = render s"
  by (simp_all add: commit_def render_def)

lemma commit_refs:
  "render s \<noteq> VideoPanel \<Longrightarrow> videoRef (commit s) = None"
  "render s \<noteq> VideoPanel \<Longrightarrow> canvasRef (commit s) = False"
  by (simp_all add: commit_def)

lemma check_saved_granted:
  assumes "items s ''cameraPermission'' = Some ''granted''" and "\<not> getItem_throws s"
  shows "checkCameraAvailability p s =
           Normal False (st (requestCameraPermission (userMedia p)
              (s\<lparr>calls := calls s @ [GetItem ''cameraPermission'']\<rparr>)))"
proof -
  obtain s' where r: "requestCameraPermission (userMedia p)
      (s\<lparr>calls := calls s @ [GetItem ''cameraPermission'']\<rparr>) = Normal () s'"
    using request_Normal by blast
  show ?thesis
    using assms
    by (simp add: checkCameraAvailability_def checkCameraAvailability_try_def
        localStorage_getItem_def Let_def r)
qed

lemma mount_saved_granted:
  assumes "items s ''cameraPermission'' = Some ''granted''" and "\<not> getItem_throws s"
  shows "mount p s = commit (st (requestCameraPermission (userMedia p)
              ((commit s)\<lparr>calls := calls s @ [GetItem ''cameraPermission'']\<rparr>)))"
  using assms check_saved_granted [of "commit s" p]
  by (simp add: mount_def commit_fields)

text \<open>
  Claim C4, where the platform reports the denial as a consent error. Let the stored
  preference be \<open>granted\<close> and readable, let the live permission state be denied (the
  permission query would answer \<open>denied\<close>), and let the platform reject the acquisition.
  Then \<open>checkCameraAvailability\<close> returns with no call in flight, no stream is stored
  after the mount, and the mount adds no permission query to the log: the live state
  reaches the component only through the name of the rejection. When that name is
  \<open>NotAllowedError\<close>, the permission state after the mount is \<open>denied\<close> and the error
  message is the denial message. When it is any other name, the permission state is what
  it was before the mount and the error message is the generic one.
\<close>

theorem live_denial_wins_over_saved_grant:
  assumes "items s ''cameraPermission'' = Some ''granted''" and "\<not> getItem_throws s"
    and "permissionsQuery p = Inr Denied" and "userMedia p = Rejected e"
  shows "val (checkCameraAvailability p s) = False
       \<and> (err_name e = ''NotAllowedError'' \<longrightarrow>
             permissionStatus (st (checkCameraAvailability p s)) = Denied
           \<and> permissionStatus (mount p s) = Denied
           \<and> error (mount p s) = msg_denied)
       \<and> (err_name e \<noteq> ''NotAllowedError'' \<longrightarrow>
             permissionStatus (st (checkCameraAvailability p s)) = permissionStatus s
           \<and> permissionStatus (mount p s) = permissionStatus s
           \<and> error (mount p s) = msg_generic)
       \<and> streamRef (mount p s) = None
       \<and> (PermissionsQuery \<in> set (calls (mount p s)) \<longrightarrow> PermissionsQuery \<in> set (calls s))"
proof (cases "err_name e = ''NotAllowedError''")
  case True
  then show ?thesis
    using assms(1,2,4)
    by (simp add: mount_saved_granted check_saved_granted commit_fields requestCameraPermission_def
        resume_Rejected_denied call_fields stop_calls_no_PermissionsQuery Let_def)
next
  case False
  then show ?thesis
    using assms(1,2,4)
    by (simp add: mount_saved_granted check_saved_granted commit_fields requestCameraPermission_def
        resume_Rejected_other call_fields stop_calls_no_PermissionsQuery)
qed

theorem live_denial_wins_over_saved_grant_witness:
  "permissionStatus (mount \<lparr>enumerateDevices = Inr [\<lparr>kind = VideoInput\<rparr>], permissionsApi = True,
       permissionsQuery = Inr Denied, userMedia = Rejected (JsError ''NotAllowedError'')\<rparr>
     (initial [''cameraPermission'' \<mapsto> ''granted''] False False)) = Denied
   \<and> error (mount \<lparr>enumerateDevices = Inr [\<lparr>kind = VideoInput\<rparr>], permissionsApi = True,
       permissionsQuery = Inr Denied, userMedia = Rejected (JsError ''NotAllowedError'')\<rparr>
     (initial [''cameraPermission'' \<mapsto> ''granted''] False False)) = msg_denied
   \<and> error (mount \<lparr>enumerateDevices = Inr [], permissionsApi = True,
       permissionsQuery = Inr Denied, userMedia = Rejected (JsError ''NotFoundError'')\<rparr>
     (initial [''cameraPermission'' \<mapsto> ''granted''] False False)) = msg_generic
   \<and> PermissionsQuery \<notin> set (calls (mount \<lparr>enumerateDevices = Inr [\<lparr>kind = VideoInput\<rparr>],
       permissionsApi = True, permissionsQuery = Inr Denied,
       userMedia = Rejected (JsError ''NotAllowedError'')\<rparr>
     (initial [''cameraPermission'' \<mapsto> ''granted''] False False)))"
  using live_denial_wins_over_saved_grant [of "initial [''cameraPermission'' \<mapsto> ''granted''] False False"
      "\<lparr>enumerateDevices = Inr [\<lparr>kind = VideoInput\<rparr>], permissionsApi = True,
       permissionsQuery = Inr Denied, userMedia = Rejected (JsError ''NotAllowedError'')\<rparr>"
      "JsError ''NotAllowedError''"]
    live_denial_wins_over_saved_grant [of "initial [''cameraPermission'' \<mapsto> ''granted''] False False"
      "\<lparr>enumerateDevices = Inr [], permissionsApi = True,
       permissionsQuery = Inr Denied, userMedia = Rejected (JsError ''NotFoundError'')\<rparr>"
      "JsError ''NotFoundError''"]
  by (simp add: initial_def)

text \<open>
  Claim C4 as stated promises the permission state \<open>denied\<close> whenever the live state is
  denied. With no camera the platform rejects the acquisition with \<open>NotFoundError\<close> although
  the live state is denied, and the permission state after the mount is still \<open>prompt\<close>.
\<close>

theorem live_denial_without_consent_error_stays_prompt:
  "permissionStatus (mount \<lparr>enumerateDevices = Inr [], permissionsApi = True,
       permissionsQuery = Inr Denied, userMedia = Rejected (JsError ''NotFoundError'')\<rparr>
     (initial [''cameraPermission'' \<mapsto> ''granted''] False False)) = Prompt"
proof -
  have i: "items (initial [''cameraPermission'' \<mapsto> ''granted''] False False) ''cameraPermission''
             = Some ''granted''"
    and g: "\<not> getItem_throws (initial [''cameraPermission'' \<mapsto> ''granted''] False False)"
    and p: "permissionStatus (initial [''cameraPermission'' \<mapsto> ''granted''] False False) = Prompt"
    by (simp_all add: initial_def)
  show ?thesis
    by (simp add: mount_saved_granted [OF i g] commit_fields requestCameraPermission_def
        resume_Rejected_other call_fields p)
qed

text \<open>
  Claim C5. Let the stored preference be \<open>granted\<close> and readable, and let the acquisition
  resolve, on a component whose availability flag has its initial value. After the mount
  the stream is stored and its tracks run, but the availability flag is still false and
  the permission state is unchanged: the function returned before the enumeration that
  sets the flag, and no video element was attached when the stream arrived. The panel
  shown is the one for a missing camera, \<open>videoRef\<close> is empty, and the sampling effect
  returns without starting.
\<close>

theorem saved_grant_reload_never_samples:
  assumes "items s ''cameraPermission'' = Some ''granted''" and "\<not> getItem_throws s"
    and "userMedia p = Resolved n" and "\<not> isCameraAvailable s"
  shows "streamRef (mount p s) = Some (nextStream s)
       \<and> tracks (mount p s) (nextStream s) = replicate n Live
       \<and> \<not> isCameraAvailable (mount p s)
       \<and> permissionStatus (mount p s) = permissionStatus s
       \<and> render (mount p s) = NoCameraPanel
       \<and> videoRef (mount p s) = None
       \<and> samplingEffect context2d (mount p s) = None"
proof -
  let ?s1 = "(commit s)\<lparr>calls := calls s @ [GetItem ''cameraPermission'']\<rparr>"
  have r: "render s = NoCameraPanel" using assms(4) by (simp add: render_def)
  then have v: "videoRef ?s1 = None" by (simp add: commit_refs)
  have m: "mount p s = commit (st (requestCameraPermission (Resolved n) ?s1))"
    using assms by (simp add: mount_saved_granted)
  have a: "\<not> isCameraAvailable (st (requestCameraPermission (Resolved n) ?s1))"
    using assms(4) v
    by (simp add: requestCameraPermission_def resume_Resolved_no_video call_fields commit_fields)
  then have r': "render (st (requestCameraPermission (Resolved n) ?s1)) \<noteq> VideoPanel"
    by (simp add: render_def)
  have rest: "streamRef (st (requestCameraPermission (Resolved n) ?s1)) = Some (nextStream s)"
    "tracks (st (requestCameraPermission (Resolved n) ?s1)) (nextStream s) = replicate n Live"
    "permissionStatus (st (requestCameraPermission (Resolved n) ?s1)) = permissionStatus s"
    using v
    by (simp_all add: requestCameraPermission_def resume_Resolved_no_video call_fields commit_fields)
  show ?thesis
    using a r' rest
    by (simp add: m commit_fields commit_refs samplingEffect_def render_def)
qed

theorem saved_grant_reload_never_samples_witness:
  "streamRef (mount \<lparr>enumerateDevices = Inr [\<lparr>kind = VideoInput\<rparr>], permissionsApi = True,
       permissionsQuery = Inr Granted, userMedia = Resolved 1\<rparr>
     (initial [''cameraPermission'' \<mapsto> ''granted''] False False)) = Some 0
   \<and> permissionStatus (mount \<lparr>enumerateDevices = Inr [\<lparr>kind = VideoInput\<rparr>], permissionsApi = True,
       permissionsQuery = Inr Granted, userMedia = Resolved 1\<rparr>
     (initial [''cameraPermission'' \<mapsto> ''granted''] False False)) = Prompt
   \<and> render (mount \<lparr>enumerateDevices = Inr [\<lparr>kind = VideoInput\<rparr>], permissionsApi = True,
       permissionsQuery = Inr Granted, userMedia = Resolved 1\<rparr>
     (initial [''cameraPermission'' \<mapsto> ''granted''] False False)) = NoCameraPanel
   \<and> samplingEffect True (mount \<lparr>enumerateDevices = Inr [\<lparr>kind = VideoInput\<rparr>], permissionsApi = True,
       permissionsQuery = Inr Granted, userMedia = Resolved 1\<rparr>
     (initial [''cameraPermission'' \<mapsto> ''granted''] False False)) = None"
  using saved_grant_reload_never_samples [of "initial [''cameraPermission'' \<mapsto> ''granted''] False False"
      "\<lparr>enumerateDevices = Inr [\<lparr>kind = VideoInput\<rparr>], permissionsApi = True,
       permissionsQuery = Inr Granted, userMedia = Resolved 1\<rparr>" 1 True]
  by (simp add: initial_def)

text \<open>
  Claim C6. Let the stored preference be readable and not \<open>granted\<close>, and let the
  enumeration return devices none of which is a video input. Then
  \<open>checkCameraAvailability\<close> returns with no call in flight, having only read the
  preference, enumerated the devices, set the availability flag to false and set the
  message for a missing camera. After the mount the permission state, the stored stream
  and the change listener are as before, and the log holds those two calls only: no
  acquisition and no permission query.
\<close>

theorem no_camera_is_terminal:
  assumes "items s ''cameraPermission'' \<noteq> Some ''granted''" and "\<not> getItem_throws s"
    and "enumerateDevices p = Inr devices" and "\<forall>device \<in> set devices. kind device \<noteq> VideoInput"
  shows "checkCameraAvailability p s =
           Normal False (s\<lparr>calls := calls s @ [GetItem ''cameraPermission'', EnumerateDevices],
                           isCameraAvailable := False, error := msg_no_camera\<rparr>)
       \<and> permissionStatus (mount p s) = permissionStatus s
       \<and> error (mount p s) = msg_no_camera
       \<and> \<not> isCameraAvailable (mount p s)
       \<and> streamRef (mount p s) = streamRef s
       \<and> changeListener (mount p s) = changeListener s
       \<and> calls (mount p s) = calls s @ [GetItem ''cameraPermission'', EnumerateDevices]"
proof -
  have h: "\<not> list_ex (\<lambda>device. kind device = VideoInput) devices"
    using assms(4) by (simp add: list_ex_iff)
  have c: "checkCameraAvailability p t =
           Normal False (t\<lparr>calls := calls t @ [GetItem ''cameraPermission'', EnumerateDevices],
                           isCameraAvailable := False, error := msg_no_camera\<rparr>)"
    if "items t ''cameraPermission'' \<noteq> Some ''granted''" "\<not> getItem_throws t" for t
    using that assms(3) h
    by (simp add: checkCameraAvailability_def checkCameraAvailability_try_def
        localStorage_getItem_def enumerateDevices_settled_def Let_def)
  show ?thesis
    using c [of s] c [of "commit s"] assms(1,2)
    by (simp add: mount_def commit_fields)
qed

theorem no_camera_is_terminal_witness:
  "permissionStatus (mount \<lparr>enumerateDevices = Inr [\<lparr>kind = AudioInput\<rparr>, \<lparr>kind = AudioOutput\<rparr>],
       permissionsApi = True, permissionsQuery = Inr Granted, userMedia = Resolved 1\<rparr>
     (initial Map.empty False False)) = Prompt
   \<and> error (mount \<lparr>enumerateDevices = Inr [\<lparr>kind = AudioInput\<rparr>, \<lparr>kind = AudioOutput\<rparr>],
       permissionsApi = True, permissionsQuery = Inr Granted, userMedia = Resolved 1\<rparr>
     (initial Map.empty False False)) = msg_no_camera
   \<and> calls (mount \<lparr>enumerateDevices = Inr [\<lparr>kind = AudioInput\<rparr>, \<lparr>kind = AudioOutput\<rparr>],
       permissionsApi = True, permissionsQuery = Inr Granted, userMedia = Resolved 1\<rparr>
     (initial Map.empty False False)) = [GetItem ''cameraPermission'', EnumerateDevices]"
  using no_camera_is_terminal [of "initial Map.empty False False"
      "\<lparr>enumerateDevices = Inr [\<lparr>kind = AudioInput\<rparr>, \<lparr>kind = AudioOutput\<rparr>],
       permissionsApi = True, permissionsQuery = Inr Granted, userMedia = Resolved 1\<rparr>"
      "[\<lparr>kind = AudioInput\<rparr>, \<lparr>kind = AudioOutput\<rparr>]"]
  by (simp add: initial_def)

section \<open>The sampling loop: properties\<close>

lemma processFrame_not_ready:
  assumes "readyState video \<noteq> HAVE_ENOUGH_DATA"
  shows "processFrame video sm = Returned (smp (processFrame video sm))"
    and "delivered (smp (processFrame video sm)) = delivered sm"
    and "scheduled (smp (processFrame video sm)) = scheduled sm @ [nextHandle sm]"
    and "animationFrame (smp (processFrame video sm)) = Some (nextHandle sm)"
  using assms
  by (simp_all add: processFrame_def requestAnimationFrame_def Let_def)

lemma processFrame_ready:
  assumes "readyState video = HAVE_ENOUGH_DATA" and "0 < videoWidth video" and "0 < videoHeight video"
  shows "processFrame video sm = Returned (smp (processFrame video sm))"
    and "delivered (smp (processFrame video sm))
           = delivered sm @ [last (delivered (smp (processFrame video sm)))]"
    and "img_width (last (delivered (smp (processFrame video sm)))) = videoWidth video"
    and "img_height (last (delivered (smp (processFrame video sm)))) = videoHeight video"
    and "x < videoWidth video \<Longrightarrow> y < videoHeight video \<Longrightarrow>
         img_data (last (delivered (smp (processFrame video sm)))) x y = picture video x y"
    and "scheduled (smp (processFrame video sm)) = scheduled sm @ [nextHandle sm]"
    and "animationFrame (smp (processFrame video sm)) = Some (nextHandle sm)"
  using assms
  by (simp_all add: processFrame_def requestAnimationFrame_def Let_def drawImage_def
      set_canvas_height_def set_canvas_width_def getImageData_def)

lemma processFrame_zero_size:
  assumes "readyState video = HAVE_ENOUGH_DATA" and "videoWidth video = 0 \<or> videoHeight video = 0"
  shows "processFrame video sm = Raised (JsError ''IndexSizeError'') (smp (processFrame video sm))"
    and "delivered (smp (processFrame video sm)) = delivered sm"
    and "scheduled (smp (processFrame video sm)) = scheduled sm"
    and "animationFrame (smp (processFrame video sm)) = animationFrame sm"
proof -
  let ?c = "drawImage video (set_canvas_height (videoHeight video)
              (set_canvas_width (videoWidth video) sm))"
  have g: "getImageData (canvas_width ?c) (canvas_height ?c) ?c = Inl (JsError ''IndexSizeError'')"
    using assms(2)
    by (simp add: getImageData_def drawImage_def set_canvas_height_def set_canvas_width_def)
  have p: "processFrame video sm = Raised (JsError ''IndexSizeError'') ?c"
    using assms(1) by (simp add: processFrame_def Let_def g)
  show "processFrame video sm = Raised (JsError ''IndexSizeError'') (smp (processFrame video sm))"
    and "delivered (smp (processFrame video sm)) = delivered sm"
    and "scheduled (smp (processFrame video sm)) = scheduled sm"
    and "animationFrame (smp (processFrame video sm)) = animationFrame sm"
    by (simp_all add: p drawImage_def set_canvas_height_def set_canvas_width_def)
qed

lemma processFrame_cases:
  "(scheduled (smp (processFrame video sm)) = scheduled sm
      \<and> animationFrame (smp (processFrame video sm)) = animationFrame sm)
   \<or> (scheduled (smp (processFrame video sm)) = scheduled sm @ [nextHandle sm]
      \<and> animationFrame (smp (processFrame video sm)) = Some (nextHandle sm))"
proof (cases "readyState video = HAVE_ENOUGH_DATA")
  case False
  then show ?thesis by (simp add: processFrame_not_ready(3,4))
next
  case True
  show ?thesis
  proof (cases "videoWidth video = 0 \<or> videoHeight video = 0")
    case True
    with \<open>readyState video = HAVE_ENOUGH_DATA\<close> show ?thesis
      by (simp add: processFrame_zero_size(3,4))
  next
    case False
    with \<open>readyState video = HAVE_ENOUGH_DATA\<close> show ?thesis
      by (simp add: processFrame_ready(6,7))
  qed
qed

lemma tick_idle: "scheduled sm = [] \<Longrightarrow> tick video sm = sm"
  by (simp add: tick_def)

lemma tick_one:
  "scheduled sm = [h] \<Longrightarrow> tick video sm = smp (processFrame video (sm\<lparr>scheduled := []\<rparr>))"
  by (simp add: tick_def)

lemma samplingEffect_Some:
  "samplingEffect context2d s = Some sm \<Longrightarrow>
     scheduled sm = [] \<and> delivered sm = [] \<and> animationFrame sm = None
     \<and> videoRef s \<noteq> None \<and> canvasRef s \<and> isCameraAvailable s \<and> permissionStatus s = Granted"
  by (auto simp add: samplingEffect_def split: if_splits)

lemma samplingEffect_value:
  "samplingEffect context2d s = Some sm \<Longrightarrow>
     sm = \<lparr>canvas_width = 300, canvas_height = 150, canvas_bitmap = (\<lambda>x y. transparent),
           animationFrame = None, scheduled = [], nextHandle = 1, delivered = []\<rparr>"
  by (auto simp add: samplingEffect_def split: if_splits)

lemma run_append: "run (es @ fs) sm = run fs (run es sm)"
  by (induction es arbitrary: sm) simp_all





lemma cleanup_fields:
  "delivered (cleanup sm) = delivered sm"
  "animationFrame (cleanup sm) = animationFrame sm"
  by (simp_all add: cleanup_def cancelAnimationFrame_def split: option.splits)

lemma cleanup_idle: "scheduled sm = [] \<Longrightarrow> scheduled (cleanup sm) = []"
  by (simp add: cleanup_def cancelAnimationFrame_def split: option.splits)

lemma cleanup_armed: "armed sm \<Longrightarrow> scheduled (cleanup sm) = []"
  by (auto simp add: armed_def cleanup_def cancelAnimationFrame_def split: list.splits option.splits)

lemma cleanup_idem: "cleanup (cleanup sm) = cleanup sm"
  by (simp add: cleanup_def cancelAnimationFrame_def split: option.splits)

lemma tick_armed: "armed sm \<Longrightarrow> armed (tick video sm)"
proof (cases "scheduled sm")
  case Nil
  assume "armed sm"
  with Nil show ?thesis by (simp add: tick_idle)
next
  case (Cons h hs)
  assume "armed sm"
  with Cons have "scheduled sm = [h]" by (cases hs) (simp_all add: armed_def)
  then show ?thesis
    using processFrame_cases [of video "sm\<lparr>scheduled := []\<rparr>"]
    by (auto simp add: tick_one armed_def)
qed

lemma onPlay_armed: "scheduled sm = [] \<Longrightarrow> armed (onPlay sm)"
  by (simp add: onPlay_def requestAnimationFrame_def armed_def)

lemma idle_run:
  "scheduled sm = [] \<Longrightarrow> Play \<notin> set evs \<Longrightarrow>
     scheduled (run evs sm) = [] \<and> delivered (run evs sm) = delivered sm"
proof (induction evs arbitrary: sm)
  case Nil
  then show ?case by simp
next
  case (Cons e evs)
  show ?case
  proof (cases e)
    case Play
    with Cons.prems show ?thesis by simp
  next
    case (Tick video)
    with Cons show ?thesis by (simp add: tick_idle)
  next
    case Cleanup
    with Cons.prems Cons.IH [of "cleanup sm"] show ?thesis
      by (simp add: cleanup_idle cleanup_fields)
  qed
qed

lemma armed_run: "armed sm \<Longrightarrow> Play \<notin> set evs \<Longrightarrow> armed (run evs sm)"
proof (induction evs arbitrary: sm)
  case Nil
  then show ?case by simp
next
  case (Cons e evs)
  show ?case
  proof (cases e)
    case Play
    with Cons.prems show ?thesis by simp
  next
    case (Tick video)
    with Cons show ?thesis by (simp add: tick_armed)
  next
    case Cleanup
    have "armed (cleanup sm)"
      using cleanup_armed [OF Cons.prems(1)] by (simp add: armed_def)
    with Cleanup Cons show ?thesis by simp
  qed
qed

lemma started_once_armed:
  "scheduled sm = [] \<Longrightarrow> count_list evs Play \<le> 1 \<Longrightarrow> armed (run evs sm)"
proof (induction evs arbitrary: sm)
  case Nil
  then show ?case by (simp add: armed_def)
next
  case (Cons e evs)
  show ?case
  proof (cases e)
    case Play
    with Cons.prems(2) have "count_list evs Play = 0" by simp
    then have "Play \<notin> set evs" by (simp add: count_list_0_iff)
    with Play show ?thesis
      using armed_run [OF onPlay_armed [OF Cons.prems(1)]] by simp
  next
    case (Tick video)
    with Cons show ?thesis by (simp add: tick_idle)
  next
    case Cleanup
    with Cons.prems Cons.IH [of "cleanup sm"] show ?thesis
      by (simp add: cleanup_idle)
  qed
qed

text \<open>
  A loop that was started at most once is stopped by the cleanup. Let the events before
  the cleanup contain at most one \<open>play\<close>, and those after it none. Then nothing is
  delivered after the cleanup, nothing is scheduled at the end, and a second cleanup
  changes nothing.
\<close>

lemma single_loop_cancellation:
  assumes "samplingEffect context2d s = Some sm"
    and "count_list before Play \<le> 1" and "Play \<notin> set after"
  shows "delivered (run (before @ [Cleanup] @ after) sm) = delivered (run before sm)
       \<and> scheduled (run (before @ [Cleanup] @ after) sm) = []
       \<and> cleanup (cleanup (run before sm)) = cleanup (run before sm)"
proof -
  have "scheduled sm = []" using samplingEffect_Some [OF assms(1)] by simp
  then have "armed (run before sm)" using assms(2) by (rule started_once_armed)
  then have "scheduled (cleanup (run before sm)) = []" by (rule cleanup_armed)
  then have "scheduled (run after (cleanup (run before sm))) = []
       \<and> delivered (run after (cleanup (run before sm))) = delivered (cleanup (run before sm))"
    using assms(3) by (rule idle_run)
  then show ?thesis
    by (simp add: run_append cleanup_fields cleanup_idem)
qed

text \<open>
  Claim C2. The cleanup does not stop every loop. Let the video report \<open>HAVE_ENOUGH_DATA\<close>
  with a positive native size. When the video emits \<open>play\<close> twice, two callbacks are
  scheduled and \<open>animationFrame\<close> names only the later one: after the cleanup the other
  loop is still scheduled, and the next animation frame delivers one more frame. When the
  cleanup runs before the video has emitted \<open>play\<close>, it cancels nothing and leaves the
  listener in place: a later \<open>play\<close> starts the loop, and the next animation frame delivers
  a frame.
\<close>

theorem second_loop_survives_cancellation:
  assumes "samplingEffect context2d s = Some sm" and "readyState video = HAVE_ENOUGH_DATA"
    and "0 < videoWidth video" and "0 < videoHeight video"
  shows "length (delivered (run [Play, Play, Tick video, Cleanup, Tick video] sm))
           = Suc (length (delivered (run [Play, Play, Tick video, Cleanup] sm)))
       \<and> scheduled (run [Play, Play, Tick video, Cleanup, Tick video] sm) \<noteq> []
       \<and> length (delivered (run [Cleanup, Play, Tick video] sm))
           = Suc (length (delivered (run [Cleanup] sm)))
       \<and> scheduled (run [Cleanup, Play, Tick video] sm) \<noteq> []"
  using assms(2,3,4)
  by (simp add: samplingEffect_value [OF assms(1)] onPlay_def cleanup_def tick_def
      cancelAnimationFrame_def requestAnimationFrame_def processFrame_def Let_def
      numeral_2_eq_2 drawImage_def set_canvas_height_def set_canvas_width_def getImageData_def)

theorem second_loop_survives_cancellation_witness:
  "samplingEffect True
       ((initial Map.empty False False)\<lparr>videoRef := Some \<lparr>srcObject = Some 0\<rparr>, canvasRef := True,
          isCameraAvailable := True, permissionStatus := Granted\<rparr>)
       = Some \<lparr>canvas_width = 300, canvas_height = 150, canvas_bitmap = (\<lambda>x y. transparent),
        animationFrame = None, scheduled = [], nextHandle = 1, delivered = []\<rparr>
   \<and> length (delivered (run [Play, Play,
          Tick \<lparr>readyState = 4, videoWidth = 640, videoHeight = 480, picture = (\<lambda>x y. (x, y, 0, 255))\<rparr>,
          Cleanup]
       \<lparr>canvas_width = 300, canvas_height = 150, canvas_bitmap = (\<lambda>x y. transparent),
        animationFrame = None, scheduled = [], nextHandle = 1, delivered = []\<rparr>)) = 2
   \<and> length (delivered (run [Play, Play,
          Tick \<lparr>readyState = 4, videoWidth = 640, videoHeight = 480, picture = (\<lambda>x y. (x, y, 0, 255))\<rparr>,
          Cleanup,
          Tick \<lparr>readyState = 4, videoWidth = 640, videoHeight = 480, picture = (\<lambda>x y. (x, y, 0, 255))\<rparr>]
       \<lparr>canvas_width = 300, canvas_height = 150, canvas_bitmap = (\<lambda>x y. transparent),
        animationFrame = None, scheduled = [], nextHandle = 1, delivered = []\<rparr>)) = 3
   \<and> length (delivered (run [Cleanup, Play,
          Tick \<lparr>readyState = 4, videoWidth = 640, videoHeight = 480, picture = (\<lambda>x y. (x, y, 0, 255))\<rparr>]
       \<lparr>canvas_width = 300, canvas_height = 150, canvas_bitmap = (\<lambda>x y. transparent),
        animationFrame = None, scheduled = [], nextHandle = 1, delivered = []\<rparr>)) = 1"
proof -
  let ?v = "\<lparr>readyState = 4, videoWidth = 640, videoHeight = 480, picture = (\<lambda>x y. (x, y, 0, 255))\<rparr>"
  let ?sm0 = "\<lparr>canvas_width = 300, canvas_height = 150, canvas_bitmap = (\<lambda>x y. transparent),
        animationFrame = None, scheduled = [], nextHandle = 1, delivered = []\<rparr>"
  let ?s = "(initial Map.empty False False)\<lparr>videoRef := Some \<lparr>srcObject = Some 0\<rparr>, canvasRef := True,
          isCameraAvailable := True, permissionStatus := Granted\<rparr>"
  have e: "samplingEffect True ?s = Some ?sm0"
    by (simp add: samplingEffect_def initial_def)
  have r: "readyState ?v = HAVE_ENOUGH_DATA"
    by (simp add: HAVE_ENOUGH_DATA_def)
  have w: "0 < videoWidth ?v" and h: "0 < videoHeight ?v"
    by simp_all
  have two: "length (delivered (run [Play, Play, Tick ?v, Cleanup] ?sm0)) = 2"
    by (simp add: onPlay_def cleanup_def tick_def cancelAnimationFrame_def requestAnimationFrame_def
        processFrame_def Let_def numeral_2_eq_2 drawImage_def set_canvas_height_def
        set_canvas_width_def getImageData_def HAVE_ENOUGH_DATA_def)
  have zero: "length (delivered (run [Cleanup] ?sm0)) = 0"
    by (simp add: cleanup_def cancelAnimationFrame_def)
  show ?thesis
    using second_loop_survives_cancellation [OF e r w h] e two zero by simp
qed

end
